theory Spec2Isabelle
  imports Complex_Main "HOL-Library.Code_Target_Numeral"
begin

section \<open>Exceptions and arrays\<close>

text \<open>
  The script \<^verbatim>\<open>punto_3.py\<close> works on numpy arrays of floats. Floats are modelled as
  \<^typ>\<open>real\<close> (rounding is not modelled), Python integers as \<^typ>\<open>int\<close>, and every
  exception the code can raise is a value of \<open>error\<close>.
\<close>

datatype error = ZeroDivisionError | IndexError | ValueError | MeanOfEmptySlice

text \<open>
  A numpy array of dimension one or two. \<open>Arr2 c rows\<close> has shape \<open>(length rows, c)\<close>;
  the column count is kept apart from the rows because an array may have no row at all.
\<close>

datatype ndarray = Arr1 "real list" | Arr2 nat "real list list"

fun shape :: "ndarray \<Rightarrow> nat list" where
  "shape (Arr1 v) = [length v]"
| "shape (Arr2 c rows) = [length rows, c]"

text \<open>Every row of a two-dimensional array has as many entries as the array has columns.\<close>

fun wf_ndarray :: "ndarray \<Rightarrow> bool" where
  "wf_ndarray (Arr1 v) = True"
| "wf_ndarray (Arr2 c rows) = list_all (\<lambda>r. length r = c) rows"

text \<open>\<open>x[i][n]\<close> for indices \<open>i, n \<ge> 0\<close>: an IndexError outside the array.\<close>

fun item :: "ndarray \<Rightarrow> nat \<Rightarrow> nat \<Rightarrow> error + real" where
  "item (Arr1 v) i n = Inl IndexError"
| "item (Arr2 c rows) i n =
     (if i < length rows \<and> n < c \<and> n < length (rows ! i) then Inr (rows ! i ! n)
      else Inl IndexError)"

text \<open>
  \<open>np.array(ys)\<close> for a Python list \<open>ys\<close> of one-dimensional arrays: the empty list gives
  the one-dimensional array of shape \<open>(0,)\<close>, rows of one length give a matrix, and rows of
  different lengths are refused.
\<close>

fun np_array :: "real list list \<Rightarrow> error + ndarray" where
  "np_array [] = Inr (Arr1 [])"
| "np_array (y # ys) =
     (if list_all (\<lambda>r. length r = length y) ys then Inr (Arr2 (length y) (y # ys))
      else Inl ValueError)"

section \<open>The two systems\<close>

text \<open>
  \<open>np.convolve(a, v)\<close> in its default mode \<open>full\<close>, for non-empty \<open>a\<close> and \<open>v\<close>:
  entry \<open>n\<close> is the sum of \<open>a[k] * v[n - k]\<close> over the \<open>k\<close> where both indices exist.
\<close>

definition convolve :: "real list \<Rightarrow> real list \<Rightarrow> real list" where
  "convolve a v =
     map (\<lambda>n. \<Sum>k\<leftarrow>[0..<length a]. if k \<le> n \<and> n - k < length v then a ! k * v ! (n - k) else 0)
       [0..<length a + length v - 1]"

text \<open>
  \<open>lfilter(b, [a0], x)\<close> for a one-dimensional \<open>x\<close>: with a denominator of length one,
  scipy divides \<open>b\<close> by \<open>a0\<close>, convolves it with \<open>x\<close> and keeps the first \<open>len(x)\<close>
  samples. \<open>np.convolve\<close> refuses an empty argument.
\<close>

definition lfilter :: "real list \<Rightarrow> real \<Rightarrow> real list \<Rightarrow> error + real list" where
  "lfilter b a0 x =
     (if b = [] \<or> x = [] then Inl ValueError
      else Inr (take (length x) (convolve (map (\<lambda>c. c / a0) b) x)))"

text \<open>Line 27, \<open>b = [1, -1/a, 1/(2*a)]\<close>: Python raises on a division by zero.\<close>

definition fir_b :: "real \<Rightarrow> error + real list" where
  "fir_b a = (if a = 0 then Inl ZeroDivisionError else Inr [1, - 1 / a, 1 / (2 * a)])"

text \<open>
  \<open>lfilter(b, [1], x[i])\<close> for \<open>i \<ge> 0\<close>. A row index beyond the array is an IndexError;
  an entry of a one-dimensional \<open>x\<close> is a scalar, which \<open>lfilter\<close> refuses.
\<close>

fun lfilter_row :: "real list \<Rightarrow> ndarray \<Rightarrow> nat \<Rightarrow> error + real list" where
  "lfilter_row b (Arr1 v) i = (if i < length v then Inl ValueError else Inl IndexError)"
| "lfilter_row b (Arr2 c rows) i =
     (if i < length rows then lfilter b 1 (rows ! i) else Inl IndexError)"

text \<open>The list comprehension of line 30 over the indices \<open>is\<close>, stopping at the first exception.\<close>

fun lfilter_rows :: "real list \<Rightarrow> ndarray \<Rightarrow> nat list \<Rightarrow> error + real list list" where
  "lfilter_rows b x [] = Inr []"
| "lfilter_rows b x (i # is) =
     (case lfilter_row b x i of
        Inl e \<Rightarrow> Inl e
      | Inr y \<Rightarrow> (case lfilter_rows b x is of Inl e \<Rightarrow> Inl e | Inr ys \<Rightarrow> Inr (y # ys)))"

text \<open>\<open>range(n)\<close> for a Python integer \<open>n\<close>: empty when \<open>n \<le> 0\<close>.\<close>

definition range1 :: "int \<Rightarrow> nat list" where
  "range1 n = [0..<nat n]"

text \<open>Lines 27 to 30: the FIR-filtered ensemble \<open>y_fir\<close>.\<close>

definition y_fir :: "ndarray \<Rightarrow> int \<Rightarrow> real \<Rightarrow> error + ndarray" where
  "y_fir x n_realizaciones a =
     (case fir_b a of
        Inl e \<Rightarrow> Inl e
      | Inr b \<Rightarrow>
          (case lfilter_rows b x (range1 n_realizaciones) of
             Inl e \<Rightarrow> Inl e
           | Inr ys \<Rightarrow> np_array ys))"

text \<open>Line 33, \<open>y_nl = x ** 2\<close>: a new array of the shape of \<open>x\<close>, each entry squared.\<close>

fun y_nl :: "ndarray \<Rightarrow> ndarray" where
  "y_nl (Arr1 v) = Arr1 (map (\<lambda>s. s ^ 2) v)"
| "y_nl (Arr2 c rows) = Arr2 c (map (map (\<lambda>s. s ^ 2)) rows)"

text \<open>
  The sample \<open>x[i][k]\<close> of the input with every index outside the array read as zero,
  and sample \<open>k\<close> of the causal FIR filter with coefficients \<open>[1, -1/a, 1/(2a)]\<close> on
  row \<open>i\<close>, as the specification writes it.
\<close>

definition x_at :: "ndarray \<Rightarrow> nat \<Rightarrow> int \<Rightarrow> real" where
  "x_at x i k = (if k < 0 then 0 else case item x i (nat k) of Inl e \<Rightarrow> 0 | Inr s \<Rightarrow> s)"

definition fir_sample :: "ndarray \<Rightarrow> real \<Rightarrow> nat \<Rightarrow> int \<Rightarrow> real" where
  "fir_sample x a i k = x_at x i k - x_at x i (k - 1) / a + x_at x i (k - 2) / (2 * a)"

definition ensemble_mean :: "nat \<Rightarrow> (nat \<Rightarrow> real) \<Rightarrow> real" where
  "ensemble_mean R f = (\<Sum>i<R. f i) / real R"

section \<open>Formatting\<close>

text \<open>
  Python strings are modelled as byte strings in UTF-8: the Greek letter of the annotations
  and the superscript two of the second label are two bytes each.
\<close>

definition mu :: string where
  "mu = [CHR 0xCE, CHR 0xBC]"

text \<open>The decimal digit \<open>d < 10\<close> as a character.\<close>

definition digit :: "nat \<Rightarrow> char" where
  "digit d = ''0123456789'' ! d"

fun str_nat :: "nat \<Rightarrow> string" where
  "str_nat n = (if n < 10 then [digit n] else str_nat (n div 10) @ [digit (n mod 10)])"

text \<open>\<open>str(t)\<close> for a Python integer, as an f-string prints \<open>{t}\<close>.\<close>

definition str_int :: "int \<Rightarrow> string" where
  "str_int t = (if t < 0 then ''-'' @ str_nat (nat (- t)) else str_nat (nat t))"

text \<open>Rounding to the nearest integer, a tie going to the even neighbour.\<close>

definition round_half_even :: "real \<Rightarrow> int" where
  "round_half_even r =
     (let f = \<lfloor>r\<rfloor>; d = r - of_int f
      in if d < 1 / 2 then f else if 1 / 2 < d then f + 1 else if even f then f else f + 1)"

text \<open>
  The format \<open>:.3f\<close>: the sign of a negative number, the integer part, a point and
  exactly three decimals, the value rounded to the nearest thousandth.
\<close>

definition fmt3f :: "real \<Rightarrow> string" where
  "fmt3f v =
     (let q = nat (round_half_even (\<bar>v\<bar> * 1000))
      in (if v < 0 then ''-'' else []) @ str_nat (q div 1000) @ ''.'' @
         [digit (q div 100 mod 10), digit (q div 10 mod 10), digit (q mod 10)])"

text \<open>
  The f-strings of lines 89 and 90 after their label: the two time indices, the two means
  and the difference \<open>d\<close>, which the caller passes as \<open>np.abs(m2 - m1)\<close>.
\<close>

definition media_text :: "string \<Rightarrow> int \<Rightarrow> real \<Rightarrow> int \<Rightarrow> real \<Rightarrow> real \<Rightarrow> string" where
  "media_text label t1 m1 t2 m2 d =
     label @ [CHR 0x0A] @ mu @ ''(t1='' @ str_int t1 @ '')='' @ fmt3f m1 @
     '', '' @ mu @ ''(t2='' @ str_int t2 @ '')='' @ fmt3f m2 @
     '', diferencia='' @ fmt3f d"

definition label_fir :: string where
  "label_fir = ''Media FIR''"

definition label_nl :: string where
  "label_nl = ''Media x'' @ [CHR 0xC2, CHR 0xB2]"

section \<open>The figure and the per-frame update\<close>

text \<open>
  The artists the update function returns for blitting, and the part of the figure that
  the update function writes: the x data of the four vertical markers and the two texts.
\<close>

datatype artist =
  Line_fir nat | Line_nl nat | Vline1_fir | Vline2_fir | Vline1_nl | Vline2_nl | Txt1 | Txt2

record plot_state =
  vline1_fir :: "int list"
  vline2_fir :: "int list"
  vline1_nl :: "int list"
  vline2_nl :: "int list"
  txt1 :: string
  txt2 :: string

text \<open>Lines 51 to 54 and 63 to 64: every marker drawn at 0, both texts empty.\<close>

definition initial_plot :: plot_state where
  "initial_plot =
     \<lparr>vline1_fir = [0, 0], vline2_fir = [0, 0], vline1_nl = [0, 0], vline2_nl = [0, 0],
      txt1 = [], txt2 = []\<rparr>"

text \<open>
  \<open>y[:, t]\<close>: the column \<open>t\<close> of a matrix, a negative index counting from the last column;
  an IndexError outside \<open>[-c, c)\<close> and for an array of one dimension.
\<close>

fun column :: "ndarray \<Rightarrow> int \<Rightarrow> error + real list" where
  "column (Arr1 v) t = Inl IndexError"
| "column (Arr2 c rows) t =
     (if - int c \<le> t \<and> t < int c
      then Inr (map (\<lambda>r. r ! nat (if t < 0 then t + int c else t)) rows)
      else Inl IndexError)"

text \<open>
  \<open>np.mean\<close> of a one-dimensional array. numpy gives nan for an empty array (and warns);
  the reals have no nan, so the model reports that case as \<open>MeanOfEmptySlice\<close>.
\<close>

definition np_mean :: "real list \<Rightarrow> error + real" where
  "np_mean v = (if v = [] then Inl MeanOfEmptySlice else Inr (sum_list v / real (length v)))"

definition column_mean :: "ndarray \<Rightarrow> int \<Rightarrow> error + real" where
  "column_mean y t = (case column y t of Inl e \<Rightarrow> Inl e | Inr v \<Rightarrow> np_mean v)"

text \<open>The variables the closure \<open>update\<close> captures from \<open>animar_medias_tiempo\<close>.\<close>

record env =
  env_y_fir :: ndarray
  env_y_nl :: ndarray
  env_tau :: int
  env_fir_lines :: "artist list"
  env_nl_lines :: "artist list"

text \<open>Lines 71 and 72: the two time indices of a frame.\<close>

definition time_indices :: "int \<Rightarrow> int \<Rightarrow> int \<times> int" where
  "time_indices tau frame = (frame, frame + tau)"

text \<open>
  Lines 69 to 92. The result is the list of artists returned and the figure after the
  call; an exception leaves the function before the first write to the figure.
\<close>

definition update :: "env \<Rightarrow> int \<Rightarrow> plot_state \<Rightarrow> error + (artist list \<times> plot_state)" where
  "update e frame s =
     (case time_indices (env_tau e) frame of
        (t1, t2) \<Rightarrow>
          if 1000 \<le> t2 then Inr ([], s)
          else
            (case column_mean (env_y_fir e) t1 of
               Inl err \<Rightarrow> Inl err
             | Inr media_fir_t1 \<Rightarrow>
            (case column_mean (env_y_fir e) t2 of
               Inl err \<Rightarrow> Inl err
             | Inr media_fir_t2 \<Rightarrow>
            (case column_mean (env_y_nl e) t1 of
               Inl err \<Rightarrow> Inl err
             | Inr media_nl_t1 \<Rightarrow>
            (case column_mean (env_y_nl e) t2 of
               Inl err \<Rightarrow> Inl err
             | Inr media_nl_t2 \<Rightarrow>
                 Inr (env_fir_lines e @ env_nl_lines e @
                        [Vline1_fir, Vline2_fir, Vline1_nl, Vline2_nl, Txt1, Txt2],
                      s\<lparr>vline1_fir := [t1, t1], vline2_fir := [t2, t2],
                        vline1_nl := [t1, t1], vline2_nl := [t2, t2],
                        txt1 := media_text label_fir t1 media_fir_t1 t2 media_fir_t2
                                  \<bar>media_fir_t2 - media_fir_t1\<bar>,
                        txt2 := media_text label_nl t1 media_nl_t1 t2 media_nl_t2
                                  \<bar>media_nl_t2 - media_nl_t1\<bar>\<rparr>))))))"

section \<open>The animation\<close>

text \<open>
  \<open>range(start, stop, step)\<close> for a positive step, the only kind the script uses (a
  step that is not positive gives no element here, which is not what Python does).
\<close>

function py_range :: "int \<Rightarrow> int \<Rightarrow> int \<Rightarrow> int list" where
  "py_range start stop step =
     (if 0 < step \<and> start < stop then start # py_range (start + step) stop step else [])"
  by pat_completeness auto
termination
  by (relation "measure (\<lambda>(start, stop, step). nat (stop - start))") auto

declare py_range.simps [simp del]

text \<open>Line 95: the arguments of \<open>FuncAnimation\<close>.\<close>

record animation =
  frames :: "int list"
  interval :: nat
  blit :: bool

definition ani :: "int \<Rightarrow> animation" where
  "ani tau = \<lparr>frames = py_range 0 (1000 - tau) 10, interval = 200, blit = True\<rparr>"

text \<open>
  One pass of the animation driver over a frame sequence, from the figure \<open>s\<close>: the
  update function is called for each frame in order, and an exception of the update
  function ends the run.
\<close>

fun run_frames :: "env \<Rightarrow> int list \<Rightarrow> plot_state \<Rightarrow> error + plot_state" where
  "run_frames e [] s = Inr s"
| "run_frames e (f # fs) s =
     (case update e f s of Inl err \<Rightarrow> Inl err | Inr (arts, s') \<Rightarrow> run_frames e fs s')"

section \<open>The routine on a store\<close>

text \<open>
  Arrays live in a store and variables hold their addresses. A new array is put at the
  first free address; the routine has no statement that writes into an existing array.
  Here the figure is a value beside the store; further down its artists are objects of
  the store as well.
\<close>

type_synonym heap = "ndarray list"

definition alloc :: "heap \<Rightarrow> ndarray \<Rightarrow> nat \<times> heap" where
  "alloc h v = (length h, h @ [v])"

text \<open>Line 36, \<open>np.arange(1000)\<close>.\<close>

definition tiempo :: ndarray where
  "tiempo = Arr1 (map real [0..<1000])"

text \<open>
  \<open>ax.plot(tiempo, y[i])\<close> for each \<open>i\<close> of the list: the row must exist and have the
  length of \<open>tiempo\<close>.
\<close>

fun plot_row :: "ndarray \<Rightarrow> nat \<Rightarrow> error + unit" where
  "plot_row (Arr1 v) i = (if i < length v then Inl ValueError else Inl IndexError)"
| "plot_row (Arr2 c rows) i =
     (if i < length rows then (if length (rows ! i) = 1000 then Inr () else Inl ValueError)
      else Inl IndexError)"

fun plot_lines :: "(nat \<Rightarrow> artist) \<Rightarrow> ndarray \<Rightarrow> nat list \<Rightarrow> error + artist list" where
  "plot_lines mk y [] = Inr []"
| "plot_lines mk y (i # is) =
     (case plot_row y i of
        Inl err \<Rightarrow> Inl err
      | Inr u \<Rightarrow> (case plot_lines mk y is of Inl err \<Rightarrow> Inl err | Inr ls \<Rightarrow> Inr (mk i # ls)))"

text \<open>
  Lines 41 to 95 on the arrays made before: the lines of the first ten realizations, the
  initial figure and the run of the animation.
\<close>

definition animate :: "ndarray \<Rightarrow> ndarray \<Rightarrow> int \<Rightarrow> int \<Rightarrow> error + plot_state" where
  "animate yf yn n_realizaciones tau =
     (case plot_lines Line_fir yf (range1 (min n_realizaciones 10)) of
        Inl err \<Rightarrow> Inl err
      | Inr fir_lines \<Rightarrow>
          (case plot_lines Line_nl yn (range1 (min n_realizaciones 10)) of
             Inl err \<Rightarrow> Inl err
           | Inr nl_lines \<Rightarrow>
               run_frames
                 \<lparr>env_y_fir = yf, env_y_nl = yn, env_tau = tau,
                  env_fir_lines = fir_lines, env_nl_lines = nl_lines\<rparr>
                 (frames (ani tau)) initial_plot))"

text \<open>
  \<open>animar_medias_tiempo(x, n_realizaciones, a, tau)\<close>, with \<open>x\<close> the address \<open>xp\<close> of the
  ensemble in the store \<open>h\<close>. The result is the store after the call, and the figure or
  the exception that ended the call.
\<close>

definition animar_medias_tiempo ::
  "heap \<Rightarrow> nat \<Rightarrow> int \<Rightarrow> real \<Rightarrow> int \<Rightarrow> heap \<times> (error + plot_state)" where
  "animar_medias_tiempo h xp n_realizaciones a tau =
     (case y_fir (h ! xp) n_realizaciones a of
        Inl err \<Rightarrow> (h, Inl err)
      | Inr yf \<Rightarrow>
          (case alloc h yf of
             (p_fir, h1) \<Rightarrow>
               (case alloc h1 (y_nl (h1 ! xp)) of
                  (p_nl, h2) \<Rightarrow>
                    (case alloc h2 tiempo of
                       (p_tiempo, h3) \<Rightarrow>
                         (h3, animate (h3 ! p_fir) (h3 ! p_nl) n_realizaciones tau)))))"

section \<open>The routine on a store of objects\<close>
















section \<open>The third experiment\<close>

text \<open>
  A call \<open>np.random.normal(loc, scale, size)\<close>: \<open>loc\<close> is the mean and \<open>scale\<close> the
  standard deviation of the distribution of each of the \<open>size\<close> samples drawn.
\<close>

record normal_call =
  loc :: real
  scale :: real
  size :: nat

definition normal_mean :: "normal_call \<Rightarrow> real" where
  "normal_mean c = loc c"

definition normal_std :: "normal_call \<Rightarrow> real" where
  "normal_std c = scale c"

definition normal_variance :: "normal_call \<Rightarrow> real" where
  "normal_variance c = (scale c) ^ 2"

text \<open>Line 104.\<close>

definition script_n_realizaciones :: int where
  "script_n_realizaciones = 3000"

text \<open>Line 124: one call of \<open>np.random.normal\<close> for each \<open>t\<close> of \<open>range(n_realizaciones)\<close>.\<close>

definition x_variante_call :: "nat \<Rightarrow> normal_call" where
  "x_variante_call t = \<lparr>loc = 0, scale = 0.5 + 0.01 * real t, size = 1000\<rparr>"

definition x_variante :: "normal_call list" where
  "x_variante = map x_variante_call (range1 script_n_realizaciones)"

section \<open>The FIR system\<close>

lemma convolve3_nth:
  assumes "n < length v"
  shows "take (length v) (convolve [b0, b1, b2] v) ! n =
           b0 * v ! n + (if 1 \<le> n then b1 * v ! (n - 1) else 0) + (if 2 \<le> n then b2 * v ! (n - 2) else 0)"
  using assms by (auto simp: convolve_def numeral_2_eq_2)

lemma lfilter_rows_Arr2:
  assumes "\<forall>i\<in>set is. i < length rows" and "\<forall>r\<in>set rows. r \<noteq> []" and "b \<noteq> []"
  shows "lfilter_rows b (Arr2 c rows) is =
           Inr (map (\<lambda>i. take (length (rows ! i)) (convolve (map (\<lambda>c. c / 1) b) (rows ! i))) is)"
  using assms by (induction "is") (auto simp: lfilter_def)

lemma shape_Arr2: "shape x = [R, C] \<Longrightarrow> \<exists>rows. x = Arr2 C rows \<and> length rows = R"
  by (cases x) auto

text \<open>The rows of the filtered ensemble, for an input of shape (R, 1000).\<close>

lemma y_fir_rows:
  assumes "shape x = [R, 1000]" and "wf_ndarray x" and "a \<noteq> 0"
  shows "\<exists>ys. lfilter_rows [1, - 1 / a, 1 / (2 * a)] x (range1 (int R)) = Inr ys \<and>
           length ys = R \<and>
           (\<forall>i<R. length (ys ! i) = 1000 \<and> (\<forall>n<1000. ys ! i ! n = fir_sample x a i (int n)))"
proof -
  from assms(1) obtain rows where x: "x = Arr2 1000 rows" and R: "length rows = R"
    using shape_Arr2 by blast
  from assms(2) x have len: "\<forall>r\<in>set rows. length r = 1000"
    by (simp add: list_all_iff)
  then have ne: "\<forall>r\<in>set rows. r \<noteq> []" by auto
  define b where "b = [1, - 1 / a, 1 / (2 * a)]"
  define ys where "ys = map (\<lambda>i. take (length (rows ! i)) (convolve b (rows ! i))) [0..<R]"
  have rows_ok: "lfilter_rows b x (range1 (int R)) = Inr ys"
    using lfilter_rows_Arr2 [of "[0..<R]" rows b 1000] ne R
    by (simp add: x range1_def ys_def b_def)
  have "length (ys ! i) = 1000 \<and> (\<forall>n<1000. ys ! i ! n = fir_sample x a i (int n))" if "i < R" for i
  proof -
    have li: "length (rows ! i) = 1000" using len that R by simp
    have yi: "ys ! i = take (length (rows ! i)) (convolve b (rows ! i))"
      using that by (simp add: ys_def)
    have "length (ys ! i) = 1000" using li by (simp add: yi convolve_def b_def)
    moreover have "ys ! i ! n = fir_sample x a i (int n)" if "n < 1000" for n
      using that \<open>i < R\<close> li R convolve3_nth [of n "rows ! i" 1 "- 1 / a" "1 / (2 * a)"]
      by (auto simp: yi b_def x_at_def fir_sample_def x nat_diff_distrib)
    ultimately show ?thesis by blast
  qed
  moreover have "length ys = R" by (simp add: ys_def)
  ultimately show ?thesis using rows_ok unfolding b_def by blast
qed

lemma y_fir_Arr2:
  assumes "shape x = [R, 1000]" and "wf_ndarray x" and "a \<noteq> 0" and "0 < R"
  shows "\<exists>ys. y_fir x (int R) a = Inr (Arr2 1000 ys) \<and> length ys = R \<and>
           (\<forall>i<R. length (ys ! i) = 1000 \<and> (\<forall>n<1000. ys ! i ! n = fir_sample x a i (int n)))"
proof -
  from y_fir_rows [OF assms(1-3)] obtain ys where
    ok: "lfilter_rows [1, - 1 / a, 1 / (2 * a)] x (range1 (int R)) = Inr ys" and
    n: "length ys = R" and
    rows: "\<forall>i<R. length (ys ! i) = 1000 \<and> (\<forall>n<1000. ys ! i ! n = fir_sample x a i (int n))"
    by blast
  from n assms(4) obtain y0 yt where ys: "ys = y0 # yt" by (cases ys) auto
  have all: "\<forall>y\<in>set ys. length y = 1000"
    using rows n by (auto simp: in_set_conv_nth)
  then have "np_array ys = Inr (Arr2 1000 ys)"
    by (simp add: ys list_all_iff)
  then have "y_fir x (int R) a = Inr (Arr2 1000 ys)"
    using ok assms(3) by (simp add: y_fir_def fir_b_def)
  with n rows show ?thesis by blast
qed

lemma y_fir_no_rows:
  assumes "shape x = [0, c]" and "a \<noteq> 0"
  shows "y_fir x 0 a = Inr (Arr1 [])"
  using assms by (simp add: y_fir_def fir_b_def range1_def)

text \<open>
  Claim C1. For an ensemble \<open>x\<close> of shape (R, 1000), passed with \<open>n_realizaciones = R\<close>
  as the docstring asks, and a parameter \<open>a \<noteq> 0\<close>, the FIR step returns an array whose
  entry at row \<open>i < R\<close> and sample \<open>n < 1000\<close> is
  \<open>x[i][n] - x[i][n-1]/a + x[i][n-2]/(2a)\<close>, with \<open>x[i][k]\<close> read as 0 for \<open>k < 0\<close>.
\<close>

theorem fir_output_formula:
  assumes "shape x = [R, 1000]" and "wf_ndarray x" and "a \<noteq> 0"
  shows "\<exists>y. y_fir x (int R) a = Inr y \<and>
           (\<forall>i<R. \<forall>n<1000. item y i n =
              Inr (x_at x i (int n) - x_at x i (int n - 1) / a + x_at x i (int n - 2) / (2 * a)))"
proof (cases "R = 0")
  case True
  then show ?thesis using y_fir_no_rows [of x 1000 a] assms by simp
next
  case False
  then have "0 < R" by simp
  from y_fir_Arr2 [OF assms this] obtain ys where
    res: "y_fir x (int R) a = Inr (Arr2 1000 ys)" and n: "length ys = R" and
    rows: "\<forall>i<R. length (ys ! i) = 1000 \<and> (\<forall>n<1000. ys ! i ! n = fir_sample x a i (int n))"
    by blast
  have "\<forall>i<R. \<forall>n<1000. item (Arr2 1000 ys) i n =
          Inr (x_at x i (int n) - x_at x i (int n - 1) / a + x_at x i (int n - 2) / (2 * a))"
    using n rows by (simp add: fir_sample_def)
  with res show ?thesis by blast
qed

text \<open>
  The row \<open>[1, 2, 3, 4, ...]\<close> with \<open>a = 2\<close>: the first three output samples are
  1, 1.5 and 2.25.
\<close>

theorem fir_output_formula_witness:
  "shape (Arr2 1000 [map real [1..<1001]]) = [1, 1000] \<and>
   wf_ndarray (Arr2 1000 [map real [1..<1001]]) \<and> (2::real) \<noteq> 0 \<and>
   (\<exists>y. y_fir (Arr2 1000 [map real [1..<1001]]) (int 1) 2 = Inr y \<and>
      item y 0 0 = Inr 1 \<and> item y 0 1 = Inr (3 / 2) \<and> item y 0 2 = Inr (9 / 4))"
proof -
  let ?x = "Arr2 1000 [map real [1..<1001]]"
  have s: "shape ?x = [1, 1000]" and w: "wf_ndarray ?x" and a: "(2::real) \<noteq> 0"
    by simp_all
  from fir_output_formula [OF s w a] obtain y where
    y: "y_fir ?x (int 1) 2 = Inr y" and
    f: "\<forall>i<1. \<forall>n<1000. item y i n =
          Inr (x_at ?x i (int n) - x_at ?x i (int n - 1) / 2 + x_at ?x i (int n - 2) / (2 * 2))"
    by blast
  have "item y 0 0 = Inr 1"
    using f [rule_format, of 0 0] by (simp add: x_at_def)
  moreover have "item y 0 1 = Inr (3 / 2)"
    using f [rule_format, of 0 1] by (simp add: x_at_def)
  moreover have "item y 0 2 = Inr (9 / 4)"
    using f [rule_format, of 0 2] by (simp add: x_at_def)
  ultimately show ?thesis using s w a y by blast
qed

section \<open>The nonlinear system\<close>

lemma shape_y_nl: "shape (y_nl x) = shape x"
  by (cases x) simp_all

lemma item_y_nl: "item (y_nl x) i n = (case item x i n of Inl e \<Rightarrow> Inl e | Inr s \<Rightarrow> Inr (s ^ 2))"
  by (cases x) auto

text \<open>
  Claim C2. The nonlinear step returns an array of the shape of \<open>x\<close> whose entry at
  \<open>(i, n)\<close> is the square of \<open>x[i][n]\<close>, for every entry of \<open>x\<close> (and has no entry where
  \<open>x\<close> has none).
\<close>

theorem nonlinear_output_is_square:
  "shape (y_nl x) = shape x \<and>
   item (y_nl x) i n = (case item x i n of Inl e \<Rightarrow> Inl e | Inr s \<Rightarrow> Inr (s ^ 2))"
  using shape_y_nl item_y_nl by simp

text \<open>The row \<open>[-2, 0, 3]\<close> is mapped to \<open>[4, 0, 9]\<close>.\<close>

theorem nonlinear_output_is_square_witness:
  "item (y_nl (Arr2 3 [[- 2, 0, 3]])) 0 0 = Inr 4 \<and>
   item (y_nl (Arr2 3 [[- 2, 0, 3]])) 0 1 = Inr 0 \<and>
   item (y_nl (Arr2 3 [[- 2, 0, 3]])) 0 2 = Inr 9"
proof -
  let ?x = "Arr2 3 [[- 2, 0, 3]]"
  have "item (y_nl ?x) 0 0 = (case item ?x 0 0 of Inl e \<Rightarrow> Inl e | Inr s \<Rightarrow> Inr (s ^ 2))"
    using nonlinear_output_is_square [of ?x 0 0] by (rule conjunct2)
  also have "\<dots> = Inr 4" by simp
  finally have e0: "item (y_nl ?x) 0 0 = Inr 4" .
  have "item (y_nl ?x) 0 1 = (case item ?x 0 1 of Inl e \<Rightarrow> Inl e | Inr s \<Rightarrow> Inr (s ^ 2))"
    using nonlinear_output_is_square [of ?x 0 1] by (rule conjunct2)
  also have "\<dots> = Inr 0" by simp
  finally have e1: "item (y_nl ?x) 0 1 = Inr 0" .
  have "item (y_nl ?x) 0 2 = (case item ?x 0 2 of Inl e \<Rightarrow> Inl e | Inr s \<Rightarrow> Inr (s ^ 2))"
    using nonlinear_output_is_square [of ?x 0 2] by (rule conjunct2)
  also have "\<dots> = Inr 9" by simp
  finally have e2: "item (y_nl ?x) 0 2 = Inr 9" .
  from e0 e1 e2 show ?thesis by simp
qed

section \<open>The frame sequence\<close>

lemma py_range_unfold:
  "0 < step \<Longrightarrow> start < stop \<Longrightarrow> py_range start stop step = start # py_range (start + step) stop step"
  "\<not> start < stop \<Longrightarrow> py_range start stop step = []"
  by (subst py_range.simps, auto)+

lemma set_py_range:
  "0 < step \<Longrightarrow>
     set (py_range start stop step) = {f. start \<le> f \<and> f < stop \<and> (f - start) mod step = 0}"
proof (induction start stop step rule: py_range.induct)
  case (1 start stop step)
  show ?case
  proof (cases "start < stop")
    case False
    then show ?thesis by (subst py_range.simps) auto
  next
    case True
    have "{f. start \<le> f \<and> f < stop \<and> (f - start) mod step = 0} =
            insert start {f. start + step \<le> f \<and> f < stop \<and> (f - (start + step)) mod step = 0}"
      (is "?A = insert start ?B")
    proof (intro set_eqI iffI)
      fix f assume "f \<in> ?A"
      then have f: "start \<le> f" "f < stop" "(f - start) mod step = 0" by auto
      show "f \<in> insert start ?B"
      proof (cases "f = start")
        case True then show ?thesis by simp
      next
        case False
        with f have pos: "0 < f - start" by simp
        from f(3) have "step dvd f - start" by (simp add: dvd_eq_mod_eq_0)
        with pos have "step \<le> f - start" using zdvd_imp_le by blast
        moreover have "(f - (start + step)) mod step = 0"
          using f(3) "1.prems" by (metis diff_diff_eq minus_mod_self2)
        ultimately show ?thesis using f by simp
      qed
    next
      fix f assume "f \<in> insert start ?B"
      then consider "f = start" | "f \<in> ?B" by blast
      then show "f \<in> ?A"
      proof cases
        case 1 then show ?thesis using True by simp
      next
        case 2
        then have "(f - start) mod step = 0"
          using "1.prems" by (metis (mono_tags, lifting) diff_diff_eq mem_Collect_eq minus_mod_self2)
        with 2 "1.prems" show ?thesis by simp
      qed
    qed
    moreover have "py_range start stop step = start # py_range (start + step) stop step"
      using True "1.prems" by (subst py_range.simps) simp
    ultimately show ?thesis using "1.IH" True "1.prems" by simp
  qed
qed

lemma sorted_py_range: "sorted_wrt (<) (py_range start stop step)"
proof (induction start stop step rule: py_range.induct)
  case (1 start stop step)
  show ?case
  proof (cases "0 < step \<and> start < stop")
    case False
    then show ?thesis by (subst py_range.simps) auto
  next
    case True
    have "\<forall>f\<in>set (py_range (start + step) stop step). start < f"
      using True set_py_range [of step "start + step" stop] by auto
    moreover have "py_range start stop step = start # py_range (start + step) stop step"
      using True by (subst py_range.simps) simp
    ultimately show ?thesis using "1.IH" True by simp
  qed
qed

lemma set_frames: "set (frames (ani tau)) = {f. 0 \<le> f \<and> f < 1000 - tau \<and> f mod 10 = 0}"
  using set_py_range [of 10 0 "1000 - tau"] by (simp add: ani_def)

lemma frames_not_skipped: "f \<in> set (frames (ani tau)) \<Longrightarrow> f + tau < 1000"
  by (simp add: set_frames)

lemma last_frames:
  assumes "tau < 1000"
  shows "frames (ani tau) \<noteq> [] \<and> hd (frames (ani tau)) = 0 \<and>
         last (frames (ani tau)) = 10 * ((999 - tau) div 10)"
proof -
  let ?fs = "frames (ani tau)"
  let ?m = "10 * ((999 - tau) div 10)"
  have hd0: "?fs = 0 # py_range 10 (1000 - tau) 10"
    using assms by (simp add: ani_def py_range_unfold)
  then have ne: "?fs \<noteq> []" by simp
  have srt: "sorted_wrt (<) ?fs" by (simp add: ani_def sorted_py_range)
  have m_in: "?m \<in> set ?fs" using assms by (simp add: set_frames)
  have "last ?fs \<in> set ?fs" using ne by simp
  then have l: "0 \<le> last ?fs" "last ?fs < 1000 - tau" "last ?fs mod 10 = 0"
    by (simp_all add: set_frames)
  have "\<forall>f\<in>set ?fs. f \<le> last ?fs"
  proof
    fix f assume "f \<in> set ?fs"
    then obtain i where i: "i < length ?fs" "?fs ! i = f" by (auto simp: in_set_conv_nth)
    show "f \<le> last ?fs"
    proof (cases "i = length ?fs - 1")
      case True then show ?thesis using i ne by (simp add: last_conv_nth)
    next
      case False
      then have "i < length ?fs - 1" using i by simp
      then have "?fs ! i < ?fs ! (length ?fs - 1)"
        using srt ne by (simp add: sorted_wrt_iff_nth_less)
      then show ?thesis using i ne by (simp add: last_conv_nth)
    qed
  qed
  then have "?m \<le> last ?fs" using m_in by blast
  moreover have "last ?fs \<le> ?m" using l by presburger
  ultimately show ?thesis using ne hd0 by simp
qed

text \<open>
  Claim C5. For every \<open>tau\<close> the frames of the animation are exactly the multiples of 10
  in \<open>[0, 1000 - tau)\<close>, in increasing order: when there is one (\<open>tau < 1000\<close>) the first
  is 0 and the last is the largest multiple of 10 below \<open>1000 - tau\<close>. The interval
  between frames is 200.
\<close>

theorem frame_sequence:
  "set (frames (ani tau)) = {f. 0 \<le> f \<and> f < 1000 - tau \<and> f mod 10 = 0} \<and>
   sorted_wrt (<) (frames (ani tau)) \<and>
   (tau < 1000 \<longrightarrow> hd (frames (ani tau)) = 0 \<and> last (frames (ani tau)) = 10 * ((999 - tau) div 10)) \<and>
   interval (ani tau) = 200"
  using set_frames [of tau] sorted_py_range [of 0 "1000 - tau" 10] last_frames [of tau]
  by (simp add: ani_def)

theorem frame_sequence_witness:
  "(980::int) < 1000 \<and> hd (frames (ani 980)) = 0 \<and> last (frames (ani 980)) = 10 \<and>
   sorted_wrt (<) (frames (ani 980)) \<and> 10 \<in> set (frames (ani 980)) \<and>
   20 \<notin> set (frames (ani 980)) \<and> interval (ani 980) = 200"
  using frame_sequence [of 980] by simp

section \<open>The per-frame update\<close>

lemma update_skip: "1000 \<le> frame + env_tau e \<Longrightarrow> update e frame s = Inr ([], s)"
  by (simp add: update_def time_indices_def)

lemma update_draw:
  assumes "frame + env_tau e < 1000" and "update e frame s = Inr (arts, s')"
  shows "arts = env_fir_lines e @ env_nl_lines e @
           [Vline1_fir, Vline2_fir, Vline1_nl, Vline2_nl, Txt1, Txt2] \<and>
         vline1_fir s' = [frame, frame] \<and> vline2_fir s' = [frame + env_tau e, frame + env_tau e] \<and>
         vline1_nl s' = [frame, frame] \<and> vline2_nl s' = [frame + env_tau e, frame + env_tau e]"
  using assms by (auto simp: update_def time_indices_def split: sum.splits)

text \<open>
  Claim C4. For a frame \<open>f\<close> with \<open>f + tau \<ge> 1000\<close> the update function returns no artist
  and leaves the figure as it was, and the run of the animation goes on with the frames
  that follow.
\<close>

theorem skipped_frame_is_noop:
  assumes "1000 \<le> f + env_tau e"
  shows "update e f s = Inr ([], s) \<and> run_frames e (f # fs) s = run_frames e fs s"
  using update_skip [OF assms] by simp

theorem skipped_frame_is_noop_witness:
  "1000 \<le> 900 + env_tau \<lparr>env_y_fir = Arr1 [], env_y_nl = Arr1 [], env_tau = 100,
                            env_fir_lines = [], env_nl_lines = []\<rparr> \<and>
   update \<lparr>env_y_fir = Arr1 [], env_y_nl = Arr1 [], env_tau = 100,
            env_fir_lines = [], env_nl_lines = []\<rparr> 900 initial_plot = Inr ([], initial_plot) \<and>
   run_frames \<lparr>env_y_fir = Arr1 [], env_y_nl = Arr1 [], env_tau = 100,
                env_fir_lines = [], env_nl_lines = []\<rparr> [900, 910] initial_plot = Inr initial_plot"
proof -
  let ?e = "\<lparr>env_y_fir = Arr1 [], env_y_nl = Arr1 [], env_tau = 100,
             env_fir_lines = [], env_nl_lines = []\<rparr>"
  have h1: "1000 \<le> 900 + env_tau ?e" and h2: "1000 \<le> 910 + env_tau ?e" by simp_all
  have "run_frames ?e [900, 910] initial_plot = run_frames ?e [910] initial_plot"
    using skipped_frame_is_noop [OF h1, of initial_plot "[910]"] by simp
  also have "\<dots> = run_frames ?e [] initial_plot"
    using skipped_frame_is_noop [OF h2, of initial_plot "[]"] by simp
  finally have "run_frames ?e [900, 910] initial_plot = Inr initial_plot" by simp
  then show ?thesis using h1 skipped_frame_is_noop [OF h1, of initial_plot "[]"] by simp
qed

lemma column_mean_Arr2:
  assumes "ys \<noteq> []" and "0 \<le> t" and "t < int c"
  shows "column_mean (Arr2 c ys) t = Inr (ensemble_mean (length ys) (\<lambda>i. ys ! i ! nat t))"
proof -
  have "sum_list (map (\<lambda>r. r ! nat t) ys) = (\<Sum>i<length ys. ys ! i ! nat t)"
    by (simp add: sum_list_sum_nth atLeast0LessThan)
  then show ?thesis
    using assms by (simp add: column_mean_def np_mean_def ensemble_mean_def)
qed

lemma ensemble_mean_cong:
  "(\<And>i. i < R \<Longrightarrow> f i = g i) \<Longrightarrow> ensemble_mean R f = ensemble_mean R g"
  by (simp add: ensemble_mean_def)

lemma column_mean_y_fir:
  assumes "shape x = [R, 1000]" and "wf_ndarray x" and "a \<noteq> 0" and "0 < R"
    and "y_fir x (int R) a = Inr yf" and "0 \<le> t" and "t < 1000"
  shows "column_mean yf t = Inr (ensemble_mean R (\<lambda>i. fir_sample x a i t))"
proof -
  from y_fir_Arr2 [OF assms(1-4)] assms(5) obtain ys where
    yf: "yf = Arr2 1000 ys" and n: "length ys = R" and
    rows: "\<forall>i<R. length (ys ! i) = 1000 \<and> (\<forall>n<1000. ys ! i ! n = fir_sample x a i (int n))"
    by auto
  have ne: "ys \<noteq> []" using n assms(4) by auto
  have "ensemble_mean R (\<lambda>i. ys ! i ! nat t) = ensemble_mean R (\<lambda>i. fir_sample x a i t)"
  proof (rule ensemble_mean_cong)
    fix i assume "i < R"
    moreover have "nat t < 1000" using assms(6,7) by simp
    ultimately have "ys ! i ! nat t = fir_sample x a i (int (nat t))" using rows by blast
    then show "ys ! i ! nat t = fir_sample x a i t" using assms(6) by simp
  qed
  then show ?thesis
    using column_mean_Arr2 [OF ne assms(6), of 1000] assms(7) n by (simp add: yf)
qed

lemma column_mean_y_nl:
  assumes "shape x = [R, 1000]" and "wf_ndarray x" and "0 < R" and "0 \<le> t" and "t < 1000"
  shows "column_mean (y_nl x) t = Inr (ensemble_mean R (\<lambda>i. (x_at x i t) ^ 2))"
proof -
  from assms(1) obtain rows where x: "x = Arr2 1000 rows" and R: "length rows = R"
    using shape_Arr2 by blast
  from assms(2) x have len: "\<forall>r\<in>set rows. length r = 1000"
    by (simp add: list_all_iff)
  let ?ys = "map (map (\<lambda>s. s ^ 2)) rows"
  have ne: "?ys \<noteq> []" using R assms(3) by auto
  have "ensemble_mean R (\<lambda>i. ?ys ! i ! nat t) = ensemble_mean R (\<lambda>i. (x_at x i t) ^ 2)"
  proof (rule ensemble_mean_cong)
    fix i assume i: "i < R"
    then have "length (rows ! i) = 1000" using len R by simp
    moreover have "nat t < 1000" using assms(4,5) by simp
    ultimately show "?ys ! i ! nat t = (x_at x i t) ^ 2"
      using i R assms(4) by (simp add: x x_at_def)
  qed
  then show ?thesis
    using column_mean_Arr2 [OF ne assms(4), of 1000] assms(5) R by (simp add: x)
qed

text \<open>
  Claim C3. The ensemble \<open>x\<close> has shape (R, 1000) with \<open>R \<ge> 1\<close> realizations and
  \<open>t1 = f\<close> and \<open>t2 = f + tau\<close> are columns of it, \<open>t2 < 1000\<close>. Then the update of
  frame \<open>f\<close> draws the markers of both panels at \<open>t1\<close> and \<open>t2\<close> and writes two texts:
  the first reports the means over the realizations of the FIR-filtered ensemble at
  \<open>t1\<close> and \<open>t2\<close> and the absolute value of their difference, the second the same for
  the squared ensemble, each number in the format of three decimals.
\<close>

theorem update_reports_means:
  assumes "shape x = [R, 1000]" and "wf_ndarray x" and "a \<noteq> 0" and "0 < R"
    and "y_fir x (int R) a = Inr yf"
    and "0 \<le> f" and "f < 1000" and "0 \<le> f + tau" and "f + tau < 1000"
  shows "update \<lparr>env_y_fir = yf, env_y_nl = y_nl x, env_tau = tau,
                   env_fir_lines = fir_lines, env_nl_lines = nl_lines\<rparr> f s =
           Inr (fir_lines @ nl_lines @ [Vline1_fir, Vline2_fir, Vline1_nl, Vline2_nl, Txt1, Txt2],
                s\<lparr>vline1_fir := [f, f], vline2_fir := [f + tau, f + tau],
                  vline1_nl := [f, f], vline2_nl := [f + tau, f + tau],
                  txt1 := media_text label_fir
                            f (ensemble_mean R (\<lambda>i. fir_sample x a i f))
                            (f + tau) (ensemble_mean R (\<lambda>i. fir_sample x a i (f + tau)))
                            \<bar>ensemble_mean R (\<lambda>i. fir_sample x a i (f + tau)) -
                             ensemble_mean R (\<lambda>i. fir_sample x a i f)\<bar>,
                  txt2 := media_text label_nl
                            f (ensemble_mean R (\<lambda>i. (x_at x i f) ^ 2))
                            (f + tau) (ensemble_mean R (\<lambda>i. (x_at x i (f + tau)) ^ 2))
                            \<bar>ensemble_mean R (\<lambda>i. (x_at x i (f + tau)) ^ 2) -
                             ensemble_mean R (\<lambda>i. (x_at x i f) ^ 2)\<bar>\<rparr>)"
proof -
  have f1: "column_mean yf f = Inr (ensemble_mean R (\<lambda>i. fir_sample x a i f))"
    using assms(1-7) by (rule column_mean_y_fir)
  have f2: "column_mean yf (f + tau) = Inr (ensemble_mean R (\<lambda>i. fir_sample x a i (f + tau)))"
    using assms(1-5,8,9) by (rule column_mean_y_fir)
  have n1: "column_mean (y_nl x) f = Inr (ensemble_mean R (\<lambda>i. (x_at x i f) ^ 2))"
    using assms(1,2,4,6,7) by (rule column_mean_y_nl)
  have n2: "column_mean (y_nl x) (f + tau) = Inr (ensemble_mean R (\<lambda>i. (x_at x i (f + tau)) ^ 2))"
    using assms(1,2,4,8,9) by (rule column_mean_y_nl)
  show ?thesis
    using assms(9) by (simp add: update_def time_indices_def f1 f2 n1 n2)
qed

text \<open>
  Two realizations, \<open>[1, 2, 3, ...]\<close> and the constant 1, with \<open>a = 2\<close>, \<open>tau = 100\<close>
  and frame 10.
\<close>

theorem update_reports_means_witness:
  "shape (Arr2 1000 [map real [1..<1001], replicate 1000 1]) = [2, 1000] \<and>
   wf_ndarray (Arr2 1000 [map real [1..<1001], replicate 1000 1]) \<and>
   (\<exists>yf s'. y_fir (Arr2 1000 [map real [1..<1001], replicate 1000 1]) (int 2) 2 = Inr yf \<and>
      update \<lparr>env_y_fir = yf, env_y_nl = y_nl (Arr2 1000 [map real [1..<1001], replicate 1000 1]),
               env_tau = 100, env_fir_lines = [Line_fir 0, Line_fir 1],
               env_nl_lines = [Line_nl 0, Line_nl 1]\<rparr> 10 initial_plot =
        Inr ([Line_fir 0, Line_fir 1, Line_nl 0, Line_nl 1,
              Vline1_fir, Vline2_fir, Vline1_nl, Vline2_nl, Txt1, Txt2], s') \<and>
      vline1_fir s' = [10, 10] \<and> vline2_fir s' = [110, 110] \<and>
      vline1_nl s' = [10, 10] \<and> vline2_nl s' = [110, 110] \<and>
      txt1 s' = ''Media FIR'' @ [CHR 0x0A] @ mu @ ''(t1=10)=4.500, '' @ mu @
                ''(t2=110)=42.000, diferencia=37.500'' \<and>
      txt2 s' = label_nl @ [CHR 0x0A] @ mu @ ''(t1=10)=61.000, '' @ mu @
                ''(t2=110)=6161.000, diferencia=6100.000'')"
proof -
  let ?x = "Arr2 1000 [map real [1..<1001], replicate 1000 1]"
  have s: "shape ?x = [2, 1000]" and w: "wf_ndarray ?x" and a: "(2::real) \<noteq> 0"
    and r: "0 < (2::nat)"
    by simp_all
  from y_fir_Arr2 [OF s w a r] obtain ys where yf: "y_fir ?x (int 2) 2 = Inr (Arr2 1000 ys)"
    by blast
  have m1: "ensemble_mean 2 (\<lambda>i. fir_sample ?x 2 i 10) = 9 / 2"
    by (simp add: ensemble_mean_def fir_sample_def x_at_def numeral_2_eq_2)
  have m2: "ensemble_mean 2 (\<lambda>i. fir_sample ?x 2 i 110) = 42"
    by (simp add: ensemble_mean_def fir_sample_def x_at_def numeral_2_eq_2)
  have n1: "ensemble_mean 2 (\<lambda>i. (x_at ?x i 10) ^ 2) = 61"
    by (simp add: ensemble_mean_def x_at_def numeral_2_eq_2)
  have n2: "ensemble_mean 2 (\<lambda>i. (x_at ?x i 110) ^ 2) = 6161"
    by (simp add: ensemble_mean_def x_at_def numeral_2_eq_2)
  have d1: "\<bar>42 - 9 / 2\<bar> = (75 / 2 :: real)" and d2: "\<bar>6161 - 61\<bar> = (6100 :: real)"
    and e: "(10::int) + 100 = 110"
    by simp_all
  have t1: "media_text label_fir 10 (9 / 2) 110 42 (75 / 2) =
              ''Media FIR'' @ [CHR 0x0A] @ mu @ ''(t1=10)=4.500, '' @ mu @
              ''(t2=110)=42.000, diferencia=37.500''"
    by (simp add: media_text_def label_fir_def str_int_def fmt3f_def round_half_even_def
        Let_def digit_def)
  have t2: "media_text label_nl 10 61 110 6161 6100 =
              label_nl @ [CHR 0x0A] @ mu @ ''(t1=10)=61.000, '' @ mu @
              ''(t2=110)=6161.000, diferencia=6100.000''"
    by (simp add: media_text_def str_int_def fmt3f_def round_half_even_def Let_def digit_def)
  have "update \<lparr>env_y_fir = Arr2 1000 ys, env_y_nl = y_nl ?x, env_tau = 100,
                 env_fir_lines = [Line_fir 0, Line_fir 1],
                 env_nl_lines = [Line_nl 0, Line_nl 1]\<rparr> 10 initial_plot =
          Inr ([Line_fir 0, Line_fir 1] @ [Line_nl 0, Line_nl 1] @
                 [Vline1_fir, Vline2_fir, Vline1_nl, Vline2_nl, Txt1, Txt2],
               initial_plot\<lparr>vline1_fir := [10, 10], vline2_fir := [10 + 100, 10 + 100],
                 vline1_nl := [10, 10], vline2_nl := [10 + 100, 10 + 100],
                 txt1 := media_text label_fir
                           10 (ensemble_mean 2 (\<lambda>i. fir_sample ?x 2 i 10))
                           (10 + 100) (ensemble_mean 2 (\<lambda>i. fir_sample ?x 2 i (10 + 100)))
                           \<bar>ensemble_mean 2 (\<lambda>i. fir_sample ?x 2 i (10 + 100)) -
                            ensemble_mean 2 (\<lambda>i. fir_sample ?x 2 i 10)\<bar>,
                 txt2 := media_text label_nl
                           10 (ensemble_mean 2 (\<lambda>i. (x_at ?x i 10) ^ 2))
                           (10 + 100) (ensemble_mean 2 (\<lambda>i. (x_at ?x i (10 + 100)) ^ 2))
                           \<bar>ensemble_mean 2 (\<lambda>i. (x_at ?x i (10 + 100)) ^ 2) -
                            ensemble_mean 2 (\<lambda>i. (x_at ?x i 10) ^ 2)\<bar>\<rparr>)"
    by (rule update_reports_means [OF s w a r yf]) simp_all
  note u = this [unfolded m1 m2 n1 n2 d1 d2 e t1 t2]
  define s' where
    "s' = initial_plot\<lparr>vline1_fir := [10, 10], vline2_fir := [110, 110],
            vline1_nl := [10, 10], vline2_nl := [110, 110],
            txt1 := ''Media FIR'' @ [CHR 0x0A] @ mu @ ''(t1=10)=4.500, '' @ mu @
                    ''(t2=110)=42.000, diferencia=37.500'',
            txt2 := label_nl @ [CHR 0x0A] @ mu @ ''(t1=10)=61.000, '' @ mu @
                    ''(t2=110)=6161.000, diferencia=6100.000''\<rparr>"
  have u': "update \<lparr>env_y_fir = Arr2 1000 ys, env_y_nl = y_nl ?x, env_tau = 100,
                 env_fir_lines = [Line_fir 0, Line_fir 1],
                 env_nl_lines = [Line_nl 0, Line_nl 1]\<rparr> 10 initial_plot =
          Inr ([Line_fir 0, Line_fir 1, Line_nl 0, Line_nl 1,
                Vline1_fir, Vline2_fir, Vline1_nl, Vline2_nl, Txt1, Txt2], s')"
    using u unfolding s'_def by (simp only: append.simps)
  have v: "vline1_fir s' = [10, 10]" "vline2_fir s' = [110, 110]"
    "vline1_nl s' = [10, 10]" "vline2_nl s' = [110, 110]"
    "txt1 s' = ''Media FIR'' @ [CHR 0x0A] @ mu @ ''(t1=10)=4.500, '' @ mu @
               ''(t2=110)=42.000, diferencia=37.500''"
    "txt2 s' = label_nl @ [CHR 0x0A] @ mu @ ''(t1=10)=61.000, '' @ mu @
               ''(t2=110)=6161.000, diferencia=6100.000''"
    by (simp_all add: s'_def)
  from s w yf u' v show ?thesis by blast
qed

lemma update_drawn:
  assumes "frame + env_tau e < 1000" and "update e frame s = Inr (arts, s')"
  shows "\<exists>m1 m2 n1 n2.
           column_mean (env_y_fir e) frame = Inr m1 \<and>
           column_mean (env_y_fir e) (frame + env_tau e) = Inr m2 \<and>
           column_mean (env_y_nl e) frame = Inr n1 \<and>
           column_mean (env_y_nl e) (frame + env_tau e) = Inr n2 \<and>
           s' = s\<lparr>vline1_fir := [frame, frame],
                  vline2_fir := [frame + env_tau e, frame + env_tau e],
                  vline1_nl := [frame, frame],
                  vline2_nl := [frame + env_tau e, frame + env_tau e],
                  txt1 := media_text label_fir frame m1 (frame + env_tau e) m2 \<bar>m2 - m1\<bar>,
                  txt2 := media_text label_nl frame n1 (frame + env_tau e) n2 \<bar>n2 - n1\<bar>\<rparr>"
  using assms by (auto simp: update_def time_indices_def split: sum.splits)

lemma update_draws:
  assumes "frame + env_tau e < 1000"
    and "column_mean (env_y_fir e) frame = Inr m1"
    and "column_mean (env_y_fir e) (frame + env_tau e) = Inr m2"
    and "column_mean (env_y_nl e) frame = Inr n1"
    and "column_mean (env_y_nl e) (frame + env_tau e) = Inr n2"
  shows "\<exists>arts s'. update e frame s = Inr (arts, s')"
  using assms by (simp add: update_def time_indices_def)

lemma run_frames_last_markers:
  "fs \<noteq> [] \<Longrightarrow> \<forall>f\<in>set fs. f + env_tau e < 1000 \<Longrightarrow> run_frames e fs s = Inr s' \<Longrightarrow>
     vline1_fir s' = [last fs, last fs] \<and>
     vline2_fir s' = [last fs + env_tau e, last fs + env_tau e] \<and>
     vline1_nl s' = [last fs, last fs] \<and>
     vline2_nl s' = [last fs + env_tau e, last fs + env_tau e]"
proof (induction fs arbitrary: s)
  case Nil
  then show ?case by simp
next
  case (Cons f fs)
  from Cons.prems(3) obtain arts s1 where u: "update e f s = Inr (arts, s1)"
    and r: "run_frames e fs s1 = Inr s'"
    by (auto split: sum.splits)
  show ?case
  proof (cases "fs = []")
    case True
    then have "s' = s1" using r by simp
    moreover have "f + env_tau e < 1000" using Cons.prems(2) by simp
    ultimately show ?thesis using update_draw [OF _ u] True by simp
  next
    case False
    then show ?thesis using Cons.IH [of s1] r Cons.prems(2) by simp
  qed
qed

text \<open>
  Claim C6. At every frame \<open>f\<close> the two time indices are \<open>t1 = f\<close> and \<open>t2 = t1 + tau\<close>.
  A frame that the update function draws reads the four means at the columns \<open>f\<close> and
  \<open>f + tau\<close>, draws the markers of both panels at \<open>f\<close> and \<open>f + tau\<close> and prints these
  two indices in both texts; the frame is drawn whenever \<open>f + tau < 1000\<close> and the four
  means exist; and after a run of the animation over the first \<open>k\<close> frames of its
  sequence the markers are at the \<open>k\<close>-th frame and at that frame plus \<open>tau\<close>.
\<close>

theorem time_indices_lag:
  "(case time_indices tau f of (t1, t2) \<Rightarrow> t1 = f \<and> t2 = t1 + tau) \<and>
   (f + env_tau e < 1000 \<longrightarrow> update e f s = Inr (arts, s') \<longrightarrow>
      (\<exists>m1 m2 n1 n2.
         column_mean (env_y_fir e) f = Inr m1 \<and>
         column_mean (env_y_fir e) (f + env_tau e) = Inr m2 \<and>
         column_mean (env_y_nl e) f = Inr n1 \<and>
         column_mean (env_y_nl e) (f + env_tau e) = Inr n2 \<and>
         s' = s\<lparr>vline1_fir := [f, f], vline2_fir := [f + env_tau e, f + env_tau e],
                vline1_nl := [f, f], vline2_nl := [f + env_tau e, f + env_tau e],
                txt1 := media_text label_fir f m1 (f + env_tau e) m2 \<bar>m2 - m1\<bar>,
                txt2 := media_text label_nl f n1 (f + env_tau e) n2 \<bar>n2 - n1\<bar>\<rparr>)) \<and>
   (f + env_tau e < 1000 \<longrightarrow>
      column_mean (env_y_fir e) f = Inr m1 \<longrightarrow>
      column_mean (env_y_fir e) (f + env_tau e) = Inr m2 \<longrightarrow>
      column_mean (env_y_nl e) f = Inr n1 \<longrightarrow>
      column_mean (env_y_nl e) (f + env_tau e) = Inr n2 \<longrightarrow>
      (\<exists>arts s'. update e f s = Inr (arts, s'))) \<and>
   (0 < k \<longrightarrow> k \<le> length (frames (ani (env_tau e))) \<longrightarrow>
      run_frames e (take k (frames (ani (env_tau e)))) initial_plot = Inr s'' \<longrightarrow>
      vline1_fir s'' = [frames (ani (env_tau e)) ! (k - 1), frames (ani (env_tau e)) ! (k - 1)] \<and>
      vline2_fir s'' = [frames (ani (env_tau e)) ! (k - 1) + env_tau e,
                        frames (ani (env_tau e)) ! (k - 1) + env_tau e] \<and>
      vline1_nl s'' = [frames (ani (env_tau e)) ! (k - 1), frames (ani (env_tau e)) ! (k - 1)] \<and>
      vline2_nl s'' = [frames (ani (env_tau e)) ! (k - 1) + env_tau e,
                       frames (ani (env_tau e)) ! (k - 1) + env_tau e])"
proof (intro conjI impI)
  show "case time_indices tau f of (t1, t2) \<Rightarrow> t1 = f \<and> t2 = t1 + tau"
    by (simp add: time_indices_def)
next
  assume "f + env_tau e < 1000" and "update e f s = Inr (arts, s')"
  then show "\<exists>m1 m2 n1 n2.
         column_mean (env_y_fir e) f = Inr m1 \<and>
         column_mean (env_y_fir e) (f + env_tau e) = Inr m2 \<and>
         column_mean (env_y_nl e) f = Inr n1 \<and>
         column_mean (env_y_nl e) (f + env_tau e) = Inr n2 \<and>
         s' = s\<lparr>vline1_fir := [f, f], vline2_fir := [f + env_tau e, f + env_tau e],
                vline1_nl := [f, f], vline2_nl := [f + env_tau e, f + env_tau e],
                txt1 := media_text label_fir f m1 (f + env_tau e) m2 \<bar>m2 - m1\<bar>,
                txt2 := media_text label_nl f n1 (f + env_tau e) n2 \<bar>n2 - n1\<bar>\<rparr>"
    by (rule update_drawn)
next
  assume "f + env_tau e < 1000"
    and "column_mean (env_y_fir e) f = Inr m1"
    and "column_mean (env_y_fir e) (f + env_tau e) = Inr m2"
    and "column_mean (env_y_nl e) f = Inr n1"
    and "column_mean (env_y_nl e) (f + env_tau e) = Inr n2"
  then show "\<exists>arts s'. update e f s = Inr (arts, s')" by (rule update_draws)
next
  let ?fr = "frames (ani (env_tau e))"
  let ?fs = "take k ?fr"
  assume k: "0 < k" and kl: "k \<le> length ?fr" and r: "run_frames e ?fs initial_plot = Inr s''"
  have ne: "?fs \<noteq> []" using k kl by auto
  have ns: "\<forall>f\<in>set ?fs. f + env_tau e < 1000"
    using frames_not_skipped by (blast dest: in_set_takeD)
  have l: "last ?fs = ?fr ! (k - 1)" using k kl ne by (simp add: last_conv_nth min_def)
  from run_frames_last_markers [OF ne ns r]
  show "vline1_fir s'' = [?fr ! (k - 1), ?fr ! (k - 1)]"
    and "vline2_fir s'' = [?fr ! (k - 1) + env_tau e, ?fr ! (k - 1) + env_tau e]"
    and "vline1_nl s'' = [?fr ! (k - 1), ?fr ! (k - 1)]"
    and "vline2_nl s'' = [?fr ! (k - 1) + env_tau e, ?fr ! (k - 1) + env_tau e]"
    by (simp_all add: l)
qed

text \<open>
  A constant realization with \<open>tau = 100\<close>: frame 10 is drawn with the markers at 10 and
  110, and so is the figure after the first two frames, 0 and 10.
\<close>

theorem time_indices_lag_witness:
  "time_indices 100 10 = (10, 110) \<and>
   (\<exists>arts s'. update \<lparr>env_y_fir = Arr2 1000 [replicate 1000 1],
                     env_y_nl = Arr2 1000 [replicate 1000 1], env_tau = 100,
                     env_fir_lines = [], env_nl_lines = []\<rparr> 10 initial_plot = Inr (arts, s') \<and>
      vline1_fir s' = [10, 10] \<and> vline2_fir s' = [110, 110] \<and>
      vline1_nl s' = [10, 10] \<and> vline2_nl s' = [110, 110] \<and>
      txt1 s' = media_text label_fir 10 1 110 1 0) \<and>
   (\<exists>s''. run_frames \<lparr>env_y_fir = Arr2 1000 [replicate 1000 1],
                     env_y_nl = Arr2 1000 [replicate 1000 1], env_tau = 100,
                     env_fir_lines = [], env_nl_lines = []\<rparr>
             (take 2 (frames (ani 100))) initial_plot = Inr s'' \<and>
      vline1_fir s'' = [10, 10] \<and> vline2_fir s'' = [110, 110] \<and>
      vline1_nl s'' = [10, 10] \<and> vline2_nl s'' = [110, 110])"
proof -
  let ?y = "Arr2 1000 [replicate 1000 1]"
  let ?e = "\<lparr>env_y_fir = ?y, env_y_nl = ?y, env_tau = 100,
             env_fir_lines = [], env_nl_lines = []\<rparr>"
  have c1: "column_mean (env_y_fir ?e) 10 = Inr 1"
    and c2: "column_mean (env_y_fir ?e) (10 + env_tau ?e) = Inr 1"
    and c3: "column_mean (env_y_nl ?e) 10 = Inr 1"
    and c4: "column_mean (env_y_nl ?e) (10 + env_tau ?e) = Inr 1"
    by (simp_all add: column_mean_def np_mean_def)
  have fr: "frames (ani 100) = 0 # 10 # py_range 20 900 10"
    by (simp add: ani_def py_range_unfold)
  have lt: "(10::int) + env_tau ?e < 1000" by simp
  obtain s'' where run: "run_frames ?e (take 2 (frames (ani (env_tau ?e)))) initial_plot = Inr s''"
    by (simp add: fr update_def time_indices_def column_mean_def np_mean_def)
  have k: "0 < (2::nat)" "2 \<le> length (frames (ani (env_tau ?e)))" by (simp_all add: fr)
  note t0 = time_indices_lag [where tau = 100 and f = 10 and e = ?e and s = initial_plot
      and arts = "[]" and s' = initial_plot and ?m1.0 = 1 and ?m2.0 = 1 and ?n1.0 = 1
      and ?n2.0 = 1 and k = 2 and s'' = s'']
  have i1: "time_indices 100 10 = (10, 110)"
    using t0 [THEN conjunct1] by (auto split: prod.splits)
  from t0 [THEN conjunct2, THEN conjunct2, THEN conjunct1, rule_format, OF lt c1 c2 c3 c4]
  obtain arts s' where u: "update ?e 10 initial_plot = Inr (arts, s')" by blast
  note t1 = time_indices_lag [where tau = 100 and f = 10 and e = ?e and s = initial_plot
      and arts = arts and s' = s' and ?m1.0 = 1 and ?m2.0 = 1 and ?n1.0 = 1
      and ?n2.0 = 1 and k = 2 and s'' = s'']
  from t1 [THEN conjunct2, THEN conjunct1, rule_format, OF lt u] c1 c2 c3 c4
  have s': "s' = initial_plot\<lparr>vline1_fir := [10, 10], vline2_fir := [110, 110],
                vline1_nl := [10, 10], vline2_nl := [110, 110],
                txt1 := media_text label_fir 10 1 110 1 0,
                txt2 := media_text label_nl 10 1 110 1 0\<rparr>"
    by auto
  from t1 [THEN conjunct2, THEN conjunct2, THEN conjunct2, rule_format, OF k run]
  have m: "vline1_fir s'' = [10, 10]" "vline2_fir s'' = [110, 110]"
    "vline1_nl s'' = [10, 10]" "vline2_nl s'' = [110, 110]"
    by (simp_all add: fr)
  have run': "run_frames ?e (take 2 (frames (ani 100))) initial_plot = Inr s''"
    using run by simp
  have v: "vline1_fir s' = [10, 10]" "vline2_fir s' = [110, 110]"
    "vline1_nl s' = [10, 10]" "vline2_nl s' = [110, 110]"
    "txt1 s' = media_text label_fir 10 1 110 1 0"
    by (simp_all add: s')
  from i1 u v run' m show ?thesis by blast
qed

text \<open>
  Claim C10. For \<open>0 < tau < 1000\<close> the animation has frames, every frame \<open>f\<close> of its
  sequence has \<open>f + tau < 1000\<close>, and at no frame of the sequence does the update
  function leave through its early exit, whose result is no artist and the figure as
  it was.
\<close>

theorem skip_branch_unreachable:
  assumes "0 < tau" and "tau < 1000" and "env_tau e = tau"
  shows "frames (ani tau) \<noteq> [] \<and>
         (\<forall>f\<in>set (frames (ani tau)). f + tau < 1000 \<and> (\<forall>s. update e f s \<noteq> Inr ([], s)))"
proof -
  have "update e f s \<noteq> Inr ([], s)" if "f \<in> set (frames (ani tau))" for f s
  proof
    assume u: "update e f s = Inr ([], s)"
    have "f + env_tau e < 1000" using that assms(3) by (simp add: frames_not_skipped)
    from update_draw [OF this u] show False by simp
  qed
  moreover have "frames (ani tau) \<noteq> []" using last_frames [OF assms(2)] by simp
  ultimately show ?thesis using frames_not_skipped by blast
qed

theorem skip_branch_unreachable_witness:
  "(0::int) < 980 \<and> (980::int) < 1000 \<and> 0 \<in> set (frames (ani 980)) \<and> (0::int) + 980 < 1000 \<and>
   update \<lparr>env_y_fir = Arr2 1000 [replicate 1000 1], env_y_nl = Arr2 1000 [replicate 1000 1],
            env_tau = 980, env_fir_lines = [], env_nl_lines = []\<rparr> 0 initial_plot \<noteq>
     Inr ([], initial_plot)"
proof -
  let ?e = "\<lparr>env_y_fir = Arr2 1000 [replicate 1000 1], env_y_nl = Arr2 1000 [replicate 1000 1],
             env_tau = 980, env_fir_lines = [], env_nl_lines = []\<rparr>"
  have h: "(0::int) < 980" "(980::int) < 1000" "env_tau ?e = 980" by simp_all
  have m: "0 \<in> set (frames (ani 980))" by (simp add: set_frames)
  from skip_branch_unreachable [OF h] m
  have "(0::int) + 980 < 1000 \<and> update ?e 0 initial_plot \<noteq> Inr ([], initial_plot)" by blast
  with m show ?thesis by simp
qed

section \<open>The store\<close>
























lemma animar_arrays:
  assumes "xp < length h" and "y_fir (h ! xp) n_realizaciones a = Inr yf"
  shows "fst (animar_medias_tiempo h xp n_realizaciones a tau) =
           h @ [yf, y_nl (h ! xp), tiempo]"
  using assms by (simp add: animar_medias_tiempo_def alloc_def nth_append)

lemma wf_y_nl: "wf_ndarray x \<Longrightarrow> wf_ndarray (y_nl x)"
  by (cases x) (simp_all add: list_all_iff)

text \<open>
  Claim C8. For an ensemble of shape (R, 1000) with \<open>R \<ge> 1\<close> realizations and
  \<open>a \<noteq> 0\<close>, the FIR-filtered ensemble and the squared ensemble both have shape
  (R, 1000), and at the end of a call of the routine the store holds these two arrays
  at the addresses the routine gave them.
\<close>

theorem shapes_preserved:
  assumes "shape x = [R, 1000]" and "wf_ndarray x" and "a \<noteq> 0" and "0 < R"
  shows "\<exists>yf. y_fir x (int R) a = Inr yf \<and>
           shape yf = [R, 1000] \<and> wf_ndarray yf \<and>
           shape (y_nl x) = [R, 1000] \<and> wf_ndarray (y_nl x) \<and>
           (\<forall>h xp tau. xp < length h \<and> h ! xp = x \<longrightarrow>
              fst (animar_medias_tiempo h xp (int R) a tau) ! length h = yf \<and>
              fst (animar_medias_tiempo h xp (int R) a tau) ! Suc (length h) = y_nl x)"
proof -
  from y_fir_Arr2 [OF assms] obtain ys where
    res: "y_fir x (int R) a = Inr (Arr2 1000 ys)" and n: "length ys = R" and
    rows: "\<forall>i<R. length (ys ! i) = 1000 \<and> (\<forall>n<1000. ys ! i ! n = fir_sample x a i (int n))"
    by blast
  have "wf_ndarray (Arr2 1000 ys)"
    using rows n by (auto simp: list_all_iff in_set_conv_nth)
  moreover have "shape (Arr2 1000 ys) = [R, 1000]" using n by simp
  moreover have "shape (y_nl x) = [R, 1000]" using assms(1) by (simp add: shape_y_nl)
  moreover have "wf_ndarray (y_nl x)" using assms(2) by (rule wf_y_nl)
  moreover have "fst (animar_medias_tiempo h xp (int R) a tau) ! length h = Arr2 1000 ys \<and>
                 fst (animar_medias_tiempo h xp (int R) a tau) ! Suc (length h) = y_nl x"
    if "xp < length h \<and> h ! xp = x" for h xp tau
    using that res animar_arrays [of xp h "int R" a "Arr2 1000 ys" tau]
    by (simp add: nth_append)
  ultimately show ?thesis using res by blast
qed

theorem shapes_preserved_witness:
  "shape (Arr2 1000 [map real [1..<1001]]) = [1, 1000] \<and>
   wf_ndarray (Arr2 1000 [map real [1..<1001]]) \<and>
   (\<exists>yf. y_fir (Arr2 1000 [map real [1..<1001]]) (int 1) 2 = Inr yf \<and>
      shape yf = [1, 1000] \<and> shape (y_nl (Arr2 1000 [map real [1..<1001]])) = [1, 1000] \<and>
      fst (animar_medias_tiempo [Arr2 1000 [map real [1..<1001]]] 0 (int 1) 2 100) ! 1 = yf)"
proof -
  let ?x = "Arr2 1000 [map real [1..<1001]]"
  have s: "shape ?x = [1, 1000]" and w: "wf_ndarray ?x" and a: "(2::real) \<noteq> 0"
    and r: "0 < (1::nat)"
    by simp_all
  from shapes_preserved [OF s w a r] obtain yf where
    y: "y_fir ?x (int 1) 2 = Inr yf" and sy: "shape yf = [1, 1000]" and
    sn: "shape (y_nl ?x) = [1, 1000]" and
    st: "\<forall>h xp tau. xp < length h \<and> h ! xp = ?x \<longrightarrow>
           fst (animar_medias_tiempo h xp (int 1) 2 tau) ! length h = yf \<and>
           fst (animar_medias_tiempo h xp (int 1) 2 tau) ! Suc (length h) = y_nl ?x"
    by blast
  from st [rule_format, of 0 "[?x]" 100]
  have "fst (animar_medias_tiempo [?x] 0 (int 1) 2 100) ! 1 = yf" by simp
  with s w y sy sn show ?thesis by blast
qed

text \<open>
  Without a realization the list comprehension of line 30 is empty and \<open>np.array\<close> makes
  of it an array of one dimension (lemma \<open>y_fir_no_rows\<close>), which has no column.
\<close>

lemma update_no_rows:
  "f + env_tau e < 1000 \<Longrightarrow> env_y_fir e = Arr1 v \<Longrightarrow> update e f s = Inl IndexError"
  by (simp add: update_def time_indices_def column_mean_def)

section \<open>The third experiment: the parameters of the noise\<close>

lemma x_variante_nth: "t < 3000 \<Longrightarrow> x_variante ! t = x_variante_call t"
  by (simp add: x_variante_def range1_def script_n_realizaciones_def)

text \<open>
  Claim C9 as stated, that row \<open>t\<close> is drawn with variance \<open>0.5 + 0.01 t\<close>, fails at
  \<open>t = 0\<close>: the second argument of \<open>np.random.normal\<close> is the standard deviation, so the
  variance of row 0 is 0.25.
\<close>

theorem x_variante_variance_counterexample:
  "normal_variance (x_variante ! 0) \<noteq> 0.5 + 0.01 * real 0"
  by (simp add: x_variante_nth x_variante_call_def normal_variance_def power2_eq_square)

text \<open>
  Claim C9, amended. For every realization index \<open>t < 3000\<close>, row \<open>t\<close> is one draw of
  1000 samples from the Gaussian of mean 0 whose standard deviation is \<open>0.5 + 0.01 t\<close>
  (its variance is the square of that), with \<open>t\<close> the index of the realization: the
  parameter is one number for the whole row.
\<close>

theorem x_variante_scale:
  assumes "t < 3000"
  shows "length x_variante = 3000 \<and> size (x_variante ! t) = 1000 \<and>
         normal_mean (x_variante ! t) = 0 \<and>
         normal_std (x_variante ! t) = 0.5 + 0.01 * real t \<and>
         normal_variance (x_variante ! t) = (0.5 + 0.01 * real t) ^ 2"
  using assms
  by (simp add: x_variante_nth x_variante_call_def normal_mean_def normal_std_def
      normal_variance_def)
     (simp add: x_variante_def range1_def script_n_realizaciones_def)

theorem x_variante_scale_witness:
  "(100::nat) < 3000 \<and> normal_std (x_variante ! 100) = 3 / 2 \<and>
   normal_variance (x_variante ! 100) = 9 / 4"
proof -
  have "normal_std (x_variante ! 100) = 0.5 + 0.01 * real 100"
    and "normal_variance (x_variante ! 100) = (0.5 + 0.01 * real 100) ^ 2"
    using x_variante_scale [of 100] by simp_all
  then show ?thesis by (simp add: power2_eq_square)
qed

section \<open>The format of the reported numbers\<close>

text \<open>
  The number printed is the nearest thousandth to the absolute value, and the text ends
  in a point and three decimal digits.
\<close>

lemma round_half_even_close: "\<bar>real_of_int (round_half_even r) - r\<bar> \<le> 1 / 2"
  unfolding round_half_even_def Let_def by (auto; linarith)

lemma round_half_even_nonneg: "0 \<le> r \<Longrightarrow> 0 \<le> round_half_even r"
  unfolding round_half_even_def Let_def by (auto; linarith)


lemma digit_is_digit: "d < 10 \<Longrightarrow> digit d \<in> set ''0123456789''"
  unfolding digit_def by (rule nth_mem) simp

lemma fmt3f_three_decimals:
  "\<exists>p d. fmt3f v = p @ ''.'' @ d \<and> length d = 3 \<and> set d \<subseteq> set ''0123456789''"
proof -
  define q where "q = nat (round_half_even (\<bar>v\<bar> * 1000))"
  let ?p = "(if v < 0 then ''-'' else []) @ str_nat (q div 1000)"
  let ?d = "[digit (q div 100 mod 10), digit (q div 10 mod 10), digit (q mod 10)]"
  have "fmt3f v = ?p @ ''.'' @ ?d" by (simp add: fmt3f_def q_def Let_def)
  moreover have "length ?d = 3" by simp
  moreover have "set ?d \<subseteq> set ''0123456789''"
    using digit_is_digit [of "q div 100 mod 10"] digit_is_digit [of "q div 10 mod 10"]
      digit_is_digit [of "q mod 10"]
    by simp
  ultimately show ?thesis by blast
qed

end
